theory Spec2Isabelle
  imports Main
begin

section \<open>Clock values, minute differences and number rendering\<close>

text \<open>
  The service (the default-exported class of \<^verbatim>\<open>service/github\<close>) reads the clock through
  \<^verbatim>\<open>moment()\<close>, \<^verbatim>\<open>new Date()\<close> and \<^verbatim>\<open>Date.now()\<close>. A clock reading is the number
  of milliseconds since the epoch, an integer. \<^verbatim>\<open>toISOString()\<close> is a fixed rendering of
  such a reading and is left out: \<open>expiresAt\<close> holds the reading itself.
\<close>

type_synonym millis = int

text \<open>
  \<^verbatim>\<open>a.diff(b, "minutes")\<close> of the moment library: the difference in milliseconds divided
  by 60000 and truncated towards zero (the library's \<^verbatim>\<open>absFloor\<close>). HOL's \<open>div\<close> on
  \<open>int\<close> rounds down, so the negative case is written out.
\<close>

definition diff_minutes :: "millis \<Rightarrow> millis \<Rightarrow> int" where
  "diff_minutes a b =
     (let d = a - b in if 0 \<le> d then d div 60000 else - ((- d) div 60000))"

text \<open>
  A template literal renders an integer in decimal, with a leading minus sign when it
  is negative.
\<close>

fun digits :: "nat \<Rightarrow> string" where
  "digits n =
     (if n < 10 then [''0123456789'' ! n]
      else digits (n div 10) @ [''0123456789'' ! (n mod 10)])"

declare digits.simps [simp del]

definition numberText :: "int \<Rightarrow> string" where
  "numberText i = (if i < 0 then CHR ''-'' # digits (nat (- i)) else digits (nat i))"

text \<open>
  JavaScript truthiness of an optional string: \<^verbatim>\<open>undefined\<close> and the empty string are
  falsy.
\<close>

definition truthy :: "string option \<Rightarrow> bool" where
  "truthy v = (case v of None \<Rightarrow> False | Some t \<Rightarrow> t \<noteq> [])"

section \<open>Data model\<close>

text \<open>\<^verbatim>\<open>interface UserStatus\<close>: every field is optional.\<close>

record UserStatus =
  emoji :: "string option"
  expiresAt :: "millis option"
  limitedAvailability :: "bool option"
  message :: "string option"

text \<open>\<^verbatim>\<open>interface EmojiCacheItem\<close>.\<close>

record EmojiCacheItem =
  name :: string
  url :: string

text \<open>
  The two keys of \<^verbatim>\<open>context.globalState\<close> the service uses:
  \<^verbatim>\<open>githubstatus.emojiCache\<close> and \<^verbatim>\<open>githubstatus.emojiCacheTimestamp\<close>.
\<close>

record Memento =
  stored_emojis :: "EmojiCacheItem list option"
  stored_timestamp :: "millis option"

text \<open>
  A live \<^verbatim>\<open>setInterval\<close> timer: its handle, its period in milliseconds and the workspace
  name its callback \<^verbatim>\<open>() => this.updateStatus(workspace)\<close> closes over.
\<close>

record Timer =
  handle :: nat
  period :: int
  target :: string

datatype error = SinkPushError | CatalogFetchError | CatalogParseError | CacheStoreError

text \<open>
  What reaches the console: \<^verbatim>\<open>console.error(err)\<close> in a catch block, and the
  \<^verbatim>\<open>console.log(diffN, time.diff(...), hours, minutes)\<close> of the hours branch.
\<close>

datatype log_entry = ErrorLog error | DebugLog int int int int

text \<open>
  The fields of the class (without the \<^verbatim>\<open>__\<close> prefix), followed by the parts of the
  host the class reads and writes: the \<^verbatim>\<open>githubstatus\<close> configuration options
  \<^verbatim>\<open>emoji\<close>, \<^verbatim>\<open>emojiDefault\<close> and \<^verbatim>\<open>default\<close>, the mutation requests issued through
  \<^verbatim>\<open>__api\<close> in order, the console, the live interval timers with the number of handles
  issued so far, and the number of requests made to the emoji directory.
  \<open>ext_context\<close> (the field \<^verbatim>\<open>__context\<close>) is \<open>None\<close> when no extension context was given and otherwise holds the
  global state store. \<open>expires\<close> and \<open>idleTimeout\<close> are the configured numbers of
  minutes, taken as integers.
\<close>

record state =
  expires :: int
  start :: "millis option"
  currentLanguage :: "string option"
  emojis :: "string \<rightharpoonup> string"
  emojiCache :: "EmojiCacheItem list"
  ext_context :: "Memento option"
  lastActivity :: millis
  idleTimeout :: int
  isIdle :: bool
  config_emoji :: "string option"
  config_emojiDefault :: "string option"
  config_default :: "string option"
  requests :: "UserStatus list"
  console :: "log_entry list"
  timers :: "Timer list"
  timer_count :: nat
  fetches :: nat

text \<open>The outcome of one call of the status sink (\<^verbatim>\<open>await this.__api(...)\<close>).\<close>

datatype sink_reply = Accepted | Rejected

text \<open>
  What one call of \<^verbatim>\<open>updateStatus\<close> takes from outside: the catalog entry the user picks
  in the quick pick (\<open>None\<close> when it is dismissed; only asked when no emoji is
  configured), the clock at \<^verbatim>\<open>moment(new Date())\<close>, the clock at the later
  \<^verbatim>\<open>new Date().getTime()\<close> or \<^verbatim>\<open>Date.now()\<close> that dates the expiry, and the sink's reply.
\<close>

record push_env =
  picked :: "string option"
  time_now :: millis
  date_now :: millis
  reply :: sink_reply

section \<open>The status synchronizer\<close>

text \<open>
  The extension host is single-threaded. Each operation below is one call of a method
  of the class, run to its end on the state it finds: what the call takes from outside
  (clock readings, the user's pick, the sink's reply) is a parameter, what it changes is
  the state it returns, and no other event is taken to run between its \<^verbatim>\<open>await\<close>s.
\<close>

definition OFFSET :: int where
  "OFFSET = 10000"

definition changeUserStatus :: "sink_reply \<Rightarrow> UserStatus \<Rightarrow> state \<Rightarrow> (error + unit) \<times> state" where
  "changeUserStatus r status s =
     (let s' = s\<lparr>requests := requests s @ [status]\<rparr>
      in case r of Accepted \<Rightarrow> (Inr (), s') | Rejected \<Rightarrow> (Inl SinkPushError, s'))"

text \<open>
  \<^verbatim>\<open>selectEmoji\<close>: the quick pick shows one item per catalog entry and resolves to the
  picked item's \<^verbatim>\<open>emoji\<close> (the entry's name) or to \<^verbatim>\<open>undefined\<close>. The preview label and
  the order of the items only change what is displayed, so the result is the picked
  name whenever it names a catalog entry.
\<close>

definition selectEmoji :: "string option \<Rightarrow> state \<Rightarrow> string option" where
  "selectEmoji p s =
     (case p of
        None \<Rightarrow> None
      | Some n \<Rightarrow> if n \<in> set (map name (emojiCache s)) then Some n else None)"

text \<open>
  Lines 286 to 300 of the service: the configured emoji when it is truthy; otherwise
  (\<open>promptEmoji\<close>) the user's selection, saved to the configuration, or
  \<^verbatim>\<open>"computer"\<close>.
\<close>

definition promptEmoji :: "string option \<Rightarrow> state \<Rightarrow> string \<times> state" where
  "promptEmoji p s =
     (case selectEmoji p s of
        Some sel \<Rightarrow>
          if sel \<noteq> [] then (sel, s\<lparr>config_emoji := Some sel\<rparr>) else (''computer'', s)
      | None \<Rightarrow> (''computer'', s))"

definition resolveEmoji :: "string option \<Rightarrow> state \<Rightarrow> string \<times> state" where
  "resolveEmoji p s =
     (case config_emoji s of
        Some e \<Rightarrow> if e \<noteq> [] then (e, s) else promptEmoji p s
      | None \<Rightarrow> promptEmoji p s)"

text \<open>Lines 327 to 335: the duration text for \<open>diffN\<close> elapsed minutes.\<close>

definition plural :: "int \<Rightarrow> string" where
  "plural n = (if n > 1 then ''s'' else '''')"

definition durationText :: "int \<Rightarrow> string" where
  "durationText diffN =
     (if diffN > 60 then
        (let hours = diffN div 60; minutes = diffN mod 60
         in ''('' @ numberText hours @ '' hour'' @ plural hours @ '' '' @
            numberText minutes @ '' minute'' @ plural minutes @ '')'')
      else ''('' @ numberText diffN @ '' minute'' @ plural diffN @ '')'')"

text \<open>Line 342: the message of an active status.\<close>

definition activeMessage :: "string \<Rightarrow> string option \<Rightarrow> string \<Rightarrow> string" where
  "activeMessage workspace lang diff =
     ''Working on '' @ workspace @
     (case lang of Some l \<Rightarrow> (if l \<noteq> [] then '' in '' @ l else '''') | None \<Rightarrow> '''') @
     (if length diff > 0 then '' for '' @ diff else '''')"

text \<open>
  \<^verbatim>\<open>setIdle\<close>: the status it builds (\<open>idleStatus\<close>, with the clock reading of its
  \<^verbatim>\<open>Date.now()\<close>; a falsy \<^verbatim>\<open>emojiDefault\<close> gives \<^verbatim>\<open>"zzz"\<close>), then the sink call under
  its catch block.
\<close>

definition idleStatus :: "millis \<Rightarrow> state \<Rightarrow> UserStatus" where
  "idleStatus now s =
     (let e = (case config_emojiDefault s of
                 Some d \<Rightarrow> if d \<noteq> [] then d else ''zzz''
               | None \<Rightarrow> ''zzz'')
      in \<lparr>emoji = Some ('':'' @ e @ '':''),
          expiresAt = Some (now + 60 * 60 * 1000),
          limitedAvailability = None,
          message = Some ''Idle - Away from keyboard''\<rparr>)"

definition setIdle :: "millis \<Rightarrow> sink_reply \<Rightarrow> state \<Rightarrow> (error + unit) \<times> state" where
  "setIdle now r s =
     (case changeUserStatus r (idleStatus now s) s of
        (Inl err, s') \<Rightarrow> (Inr (), s'\<lparr>console := console s' @ [ErrorLog err]\<rparr>)
      | (Inr u, s') \<Rightarrow> (Inr (), s'))"

text \<open>
  Lines 319 to 336: the first active push of a session records the start and creates
  the interval timer; a later one computes the duration text and creates nothing. The
  result is the duration text, the handle to return and the new state.
\<close>

definition sessionStep :: "string \<Rightarrow> millis \<Rightarrow> state \<Rightarrow> string \<times> nat option \<times> state" where
  "sessionStep workspace time s =
     (case start s of
        None \<Rightarrow>
          ('''', Some (timer_count s),
           s\<lparr>start := Some time,
             timers := timers s @
               [\<lparr>handle = timer_count s, period = expires s * 60000, target = workspace\<rparr>],
             timer_count := Suc (timer_count s)\<rparr>)
      | Some st \<Rightarrow>
          (let diffN = diff_minutes time st
           in (durationText diffN, None,
               if diffN > 60
               then s\<lparr>console := console s @ [DebugLog diffN diffN (diffN div 60) (diffN mod 60)]\<rparr>
               else s)))"

text \<open>
  \<^verbatim>\<open>updateStatus\<close>. The result is what the promise resolves to (\<open>Inr\<close>, the timer handle
  or \<^verbatim>\<open>null\<close>) or is rejected with (\<open>Inl\<close>). The \<^verbatim>\<open>finally { return interval; }\<close> makes
  the active branch return the handle whatever the sink replied.
\<close>

definition updateStatus :: "string \<Rightarrow> push_env \<Rightarrow> state \<Rightarrow> (error + nat option) \<times> state" where
  "updateStatus workspace env s0 =
     (case resolveEmoji (picked env) s0 of (em, s) \<Rightarrow>
        (let time = time_now env;
             minutesSinceActivity = diff_minutes time (lastActivity s)
         in if minutesSinceActivity \<ge> idleTimeout s \<and> \<not> isIdle s then
              (case setIdle (date_now env) (reply env) (s\<lparr>isIdle := True\<rparr>) of
                 (Inl err, s') \<Rightarrow> (Inl err, s')
               | (Inr u, s') \<Rightarrow> (Inr None, s'))
            else if isIdle s then (Inr None, s)
            else
              (case sessionStep workspace time s of (diff, interval, s1) \<Rightarrow>
                 (let status = \<lparr>emoji = Some ('':'' @ em @ '':''),
                                expiresAt = Some (OFFSET + date_now env + expires s1 * 60000),
                                limitedAvailability = None,
                                message = Some (activeMessage workspace (currentLanguage s1) diff)\<rparr>
                  in case changeUserStatus (reply env) status s1 of
                       (Inl err, s2) \<Rightarrow> (Inr interval, s2\<lparr>console := console s2 @ [ErrorLog err]\<rparr>)
                     | (Inr u, s2) \<Rightarrow> (Inr interval, s2)))))"

text \<open>\<^verbatim>\<open>resetActivity\<close>, with the clock reading of its \<^verbatim>\<open>moment()\<close>.\<close>

definition resetActivity :: "millis \<Rightarrow> state \<Rightarrow> state" where
  "resetActivity now s = s\<lparr>lastActivity := now, isIdle := False, start := None\<rparr>"

text \<open>
  \<^verbatim>\<open>onActivity\<close>, with the clock reading of its \<^verbatim>\<open>moment()\<close>, the value of
  \<^verbatim>\<open>vscode.workspace.name\<close> and what the \<^verbatim>\<open>updateStatus\<close> it may start takes from
  outside. The promise of that call is dropped, so only the state remains.
\<close>

definition onActivity :: "millis \<Rightarrow> string option \<Rightarrow> push_env \<Rightarrow> state \<Rightarrow> state" where
  "onActivity now wsname env s0 =
     (let s = s0\<lparr>lastActivity := now\<rparr>
      in if isIdle s then
           (let s1 = s\<lparr>isIdle := False\<rparr>
            in if truthy wsname
               then (case wsname of Some w \<Rightarrow> snd (updateStatus w env s1) | None \<Rightarrow> s1)
               else s1)
         else s)"

text \<open>\<^verbatim>\<open>setDefault\<close>: nothing is pushed when no default message is configured.\<close>

definition defaultStatus :: "state \<Rightarrow> UserStatus" where
  "defaultStatus s =
     \<lparr>emoji = (case config_emojiDefault s of
                 Some d \<Rightarrow> if d \<noteq> [] then Some ('':'' @ d @ '':'') else None
               | None \<Rightarrow> None),
      expiresAt = None,
      limitedAvailability = None,
      message = config_default s\<rparr>"

definition setDefault :: "sink_reply \<Rightarrow> state \<Rightarrow> (error + unit) \<times> state" where
  "setDefault r s =
     (if \<not> truthy (config_default s) then (Inr (), s)
      else
        (case changeUserStatus r (defaultStatus s) s of
           (Inl err, s') \<Rightarrow> (Inr (), s'\<lparr>console := console s' @ [ErrorLog err]\<rparr>)
         | (Inr u, s') \<Rightarrow> (Inr (), s')))"

text \<open>
  A timer firing: the callback of the live timer with handle \<open>h\<close> runs
  \<^verbatim>\<open>updateStatus\<close> on the workspace it closes over and drops the promise. \<open>None\<close> when
  no live timer has this handle, so nothing fires.
\<close>

definition tick :: "nat \<Rightarrow> push_env \<Rightarrow> state \<Rightarrow> state option" where
  "tick h env s =
     (case find (\<lambda>t. handle t = h) (timers s) of
        None \<Rightarrow> None
      | Some t \<Rightarrow> Some (snd (updateStatus (target t) env s)))"

text \<open>Scheduled pushes one after the other, each with what it takes from outside.\<close>

fun pushes :: "string \<Rightarrow> push_env list \<Rightarrow> state \<Rightarrow> state" where
  "pushes workspace [] s = s"
| "pushes workspace (env # envs) s = pushes workspace envs (snd (updateStatus workspace env s))"

section \<open>The emoji catalog\<close>

definition CACHE_EXPIRY_HOURS :: int where
  "CACHE_EXPIRY_HOURS = 24"

text \<open>
  The outcome of \<^verbatim>\<open>fetch("https://api.github.com/emojis")\<close> followed by
  \<^verbatim>\<open>response.json()\<close>: the request is rejected (no response), the response arrives with
  \<^verbatim>\<open>response.ok\<close> false, the body of an ok response does not parse, or it parses to
  the name-to-url object the cast \<^verbatim>\<open>as GitHubEmoji\<close> takes it for, given by its
  \<^verbatim>\<open>Object.entries\<close> (distinct names, in enumeration order).
\<close>

datatype fetch_outcome =
  NetworkError | HttpError | BodyUnparseable | Directory "(string \<times> string) list"

text \<open>
  The outcome of the two \<^verbatim>\<open>globalState.update\<close> calls of \<^verbatim>\<open>cacheEmojis\<close>: both succeed,
  the first is rejected (nothing is stored), or the second is rejected (the entries
  are stored under the old timestamp). A rejected update stores nothing.
\<close>

datatype write_outcome = WriteOk | WriteFailsData | WriteFailsStamp

text \<open>
  What one call of \<^verbatim>\<open>loadEmojis\<close> takes from outside: whether reading the global state
  succeeds, the clock at the \<^verbatim>\<open>Date.now()\<close> of \<^verbatim>\<open>getCachedEmojis\<close>, the outcome of the
  fetch, the outcome of the writes and the clock at the \<^verbatim>\<open>Date.now()\<close> of
  \<^verbatim>\<open>cacheEmojis\<close>.
\<close>

record catalog_env =
  read_ok :: bool
  clock_read :: millis
  fetched :: fetch_outcome
  written :: write_outcome
  clock_write :: millis

text \<open>
  \<^verbatim>\<open>getCachedEmojis\<close>. A stored array is truthy even when empty; a stored timestamp is
  falsy when it is \<open>0\<close>.
\<close>

definition getCachedEmojis :: "catalog_env \<Rightarrow> state \<Rightarrow> EmojiCacheItem list option \<times> state" where
  "getCachedEmojis env s =
     (case ext_context s of
        None \<Rightarrow> (None, s)
      | Some g \<Rightarrow>
          if \<not> read_ok env then (None, s\<lparr>console := console s @ [ErrorLog CacheStoreError]\<rparr>)
          else
            (case stored_emojis g of
               None \<Rightarrow> (None, s)
             | Some cachedEmojis \<Rightarrow>
                 (case stored_timestamp g of
                    None \<Rightarrow> (None, s)
                  | Some cacheTimestamp \<Rightarrow>
                      if cacheTimestamp = 0 then (None, s)
                      else
                        (let now = clock_read env;
                             cacheAge = now - cacheTimestamp;
                             maxAge = CACHE_EXPIRY_HOURS * 60 * 60 * 1000
                         in if cacheAge > maxAge then (None, s) else (Some cachedEmojis, s)))))"

text \<open>\<^verbatim>\<open>cacheEmojis\<close>: a rejected update is caught and logged.\<close>

definition cacheEmojis :: "catalog_env \<Rightarrow> EmojiCacheItem list \<Rightarrow> state \<Rightarrow> state" where
  "cacheEmojis env es s =
     (case ext_context s of
        None \<Rightarrow> s
      | Some g \<Rightarrow>
          (case written env of
             WriteFailsData \<Rightarrow> s\<lparr>console := console s @ [ErrorLog CacheStoreError]\<rparr>
           | WriteFailsStamp \<Rightarrow>
               s\<lparr>ext_context := Some (g\<lparr>stored_emojis := Some es\<rparr>),
                 console := console s @ [ErrorLog CacheStoreError]\<rparr>
           | WriteOk \<Rightarrow>
               s\<lparr>ext_context :=
                   Some (g\<lparr>stored_emojis := Some es,
                           stored_timestamp := Some (clock_write env)\<rparr>)\<rparr>))"

text \<open>The object literal of the catch block of \<^verbatim>\<open>loadEmojis\<close>, as its entries.\<close>

definition fallbackEmojis :: "(string \<times> string) list" where
  "fallbackEmojis =
     [(''computer'', ''https://github.githubassets.com/images/icons/emoji/unicode/1f4bb.png?v8''),
      (''rocket'', ''https://github.githubassets.com/images/icons/emoji/unicode/1f680.png?v8''),
      (''zap'', ''https://github.githubassets.com/images/icons/emoji/unicode/26a1.png?v8''),
      (''coffee'', ''https://github.githubassets.com/images/icons/emoji/unicode/2615.png?v8''),
      (''fire'', ''https://github.githubassets.com/images/icons/emoji/unicode/1f525.png?v8''),
      (''house'', ''https://github.githubassets.com/images/icons/emoji/unicode/1f3e0.png?v8'')]"

text \<open>\<^verbatim>\<open>Object.entries(this.__emojis).map(([name, url]) => ({ name, url }))\<close>.\<close>

definition toCache :: "(string \<times> string) list \<Rightarrow> EmojiCacheItem list" where
  "toCache kvs = map (\<lambda>(n, u). \<lparr>name = n, url = u\<rparr>) kvs"

text \<open>
  The try block of \<^verbatim>\<open>loadEmojis\<close>: \<open>Inl\<close> is what it throws. Every pass that gets to
  \<^verbatim>\<open>fetch\<close> counts one request to the directory.
\<close>

definition loadEmojis_try :: "catalog_env \<Rightarrow> state \<Rightarrow> (error + unit) \<times> state" where
  "loadEmojis_try env s0 =
     (case getCachedEmojis env s0 of (cached, s) \<Rightarrow>
        (case (case cached of None \<Rightarrow> None | Some c \<Rightarrow> if length c > 0 then Some c else None) of
           Some cachedEmojis \<Rightarrow>
             (Inr (),
              s\<lparr>emojiCache := cachedEmojis,
                emojis := fold (\<lambda>e m. m(name e \<mapsto> url e)) cachedEmojis Map.empty\<rparr>)
         | None \<Rightarrow>
             (let s1 = s\<lparr>fetches := Suc (fetches s)\<rparr>
              in case fetched env of
                   NetworkError \<Rightarrow> (Inl CatalogFetchError, s1)
                 | HttpError \<Rightarrow> (Inr (), s1)
                 | BodyUnparseable \<Rightarrow> (Inl CatalogParseError, s1)
                 | Directory kvs \<Rightarrow>
                     (Inr (),
                      cacheEmojis env (toCache kvs)
                        (s1\<lparr>emojis := map_of kvs, emojiCache := toCache kvs\<rparr>)))))"

text \<open>\<^verbatim>\<open>loadEmojis\<close>: the try block under its catch block.\<close>

definition loadEmojis :: "catalog_env \<Rightarrow> state \<Rightarrow> (error + unit) \<times> state" where
  "loadEmojis env s =
     (case loadEmojis_try env s of
        (Inl err, s') \<Rightarrow>
          (Inr (),
           s'\<lparr>console := console s' @ [ErrorLog err],
              emojis := map_of fallbackEmojis,
              emojiCache := toCache fallbackEmojis\<rparr>)
      | (Inr u, s') \<Rightarrow> (Inr (), s'))"

text \<open>\<^verbatim>\<open>getAvailableEmojis\<close>.\<close>

definition getAvailableEmojis :: "state \<Rightarrow> EmojiCacheItem list" where
  "getAvailableEmojis s = emojiCache s"

section \<open>A scenario\<close>

text \<open>
  The state the constructor leaves at clock \<open>0\<close> under the configuration
  \<^verbatim>\<open>interval = 1\<close>, \<^verbatim>\<open>idleTimeout = 15\<close>, \<^verbatim>\<open>emoji = "computer"\<close>, without an extension
  context and with nothing sent, logged or scheduled yet.
\<close>

definition scenario :: state where
  "scenario =
     \<lparr>expires = 1, start = None, currentLanguage = None, emojis = Map.empty,
      emojiCache = [], ext_context = None, lastActivity = 0, idleTimeout = 15,
      isIdle = False, config_emoji = Some ''computer'', config_emojiDefault = None,
      config_default = None, requests = [], console = [], timers = [],
      timer_count = 0, fetches = 0\<rparr>"

text \<open>A push whose clock readings are both \<open>m\<close> minutes and whose sink call succeeds.\<close>

definition at_minute :: "int \<Rightarrow> push_env" where
  "at_minute m = \<lparr>picked = None, time_now = m * 60000, date_now = m * 60000, reply = Accepted\<rparr>"

text \<open>
  The same state with an extension context whose global state holds nothing yet, and
  a load whose clock readings are both \<open>t\<close>, whose reads and writes of the global state
  succeed and whose fetch ends as \<open>f\<close>.
\<close>

definition with_store :: state where
  "with_store = scenario\<lparr>ext_context := Some \<lparr>stored_emojis = None, stored_timestamp = None\<rparr>\<rparr>"

definition load_at :: "millis \<Rightarrow> fetch_outcome \<Rightarrow> catalog_env" where
  "load_at t f = \<lparr>read_ok = True, clock_read = t, fetched = f, written = WriteOk, clock_write = t\<rparr>"

section \<open>Properties\<close>

subsection \<open>The sink call and the emoji choice\<close>

lemma changeUserStatus_eq:
  "changeUserStatus r st s =
     ((case r of Accepted \<Rightarrow> Inr () | Rejected \<Rightarrow> Inl SinkPushError),
      s\<lparr>requests := requests s @ [st]\<rparr>)"
  by (cases r) (simp_all add: changeUserStatus_def)

lemma setIdle_eq:
  "setIdle now r s =
     (Inr (),
      s\<lparr>requests := requests s @ [idleStatus now s],
        console := console s @ (case r of Accepted \<Rightarrow> [] | Rejected \<Rightarrow> [ErrorLog SinkPushError])\<rparr>)"
  by (cases r) (simp_all add: setIdle_def changeUserStatus_eq)

lemma setDefault_eq:
  "setDefault r s =
     (Inr (),
      if truthy (config_default s)
      then s\<lparr>requests := requests s @ [defaultStatus s],
             console := console s @ (case r of Accepted \<Rightarrow> [] | Rejected \<Rightarrow> [ErrorLog SinkPushError])\<rparr>
      else s)"
  by (cases r) (simp_all add: setDefault_def changeUserStatus_eq)

lemma promptEmoji_cases:
  "(\<exists>e. promptEmoji p s = (e, s)) \<or> (\<exists>e. promptEmoji p s = (e, s\<lparr>config_emoji := Some e\<rparr>))"
  by (cases "selectEmoji p s") (simp_all add: promptEmoji_def)

lemma resolveEmoji_cases:
  "(\<exists>e. resolveEmoji p s = (e, s)) \<or> (\<exists>e. resolveEmoji p s = (e, s\<lparr>config_emoji := Some e\<rparr>))"
  using promptEmoji_cases [of p s]
  by (cases "config_emoji s") (simp_all add: resolveEmoji_def)

lemma resolveEmoji_state:
  "snd (resolveEmoji p s) = s\<lparr>config_emoji := config_emoji (snd (resolveEmoji p s))\<rparr>"
  using resolveEmoji_cases [of p s] by auto

subsection \<open>The paths through \<^verbatim>\<open>updateStatus\<close>\<close>

lemma updateStatus_goes_idle:
  assumes "\<not> isIdle s" "idleTimeout s \<le> diff_minutes (time_now env) (lastActivity s)"
  shows "updateStatus ws env s =
     (Inr None,
      snd (setIdle (date_now env) (reply env) ((snd (resolveEmoji (picked env) s))\<lparr>isIdle := True\<rparr>)))"
proof -
  obtain e s' where r: "resolveEmoji (picked env) s = (e, s')"
    by (cases "resolveEmoji (picked env) s")
  with resolveEmoji_state [of "picked env" s]
  have s': "s' = s\<lparr>config_emoji := config_emoji s'\<rparr>" by simp
  have "isIdle s' = isIdle s" "idleTimeout s' = idleTimeout s" "lastActivity s' = lastActivity s"
    by (subst s', simp)+
  with assms show ?thesis
    by (simp add: updateStatus_def r setIdle_eq)
qed

lemma updateStatus_while_idle:
  assumes "isIdle s"
  shows "updateStatus ws env s = (Inr None, snd (resolveEmoji (picked env) s))"
proof -
  obtain e s' where r: "resolveEmoji (picked env) s = (e, s')"
    by (cases "resolveEmoji (picked env) s")
  with resolveEmoji_state [of "picked env" s]
  have s': "s' = s\<lparr>config_emoji := config_emoji s'\<rparr>" by simp
  have "isIdle s' = isIdle s"
    by (subst s', simp)
  with assms show ?thesis
    by (simp add: updateStatus_def r)
qed

lemma sessionStep_first:
  "start s = None \<Longrightarrow>
   sessionStep ws t s =
     ([], Some (timer_count s),
      s\<lparr>start := Some t,
        timers := timers s @ [\<lparr>handle = timer_count s, period = expires s * 60000, target = ws\<rparr>],
        timer_count := Suc (timer_count s)\<rparr>)"
  by (simp add: sessionStep_def)

lemma sessionStep_later:
  "start s = Some st \<Longrightarrow>
   sessionStep ws t s =
     (durationText (diff_minutes t st), None,
      s\<lparr>console := console s @
          (if diff_minutes t st > 60
           then [DebugLog (diff_minutes t st) (diff_minutes t st)
                   (diff_minutes t st div 60) (diff_minutes t st mod 60)]
           else [])\<rparr>)"
  by (simp add: sessionStep_def Let_def)

lemma updateStatus_active:
  assumes "\<not> isIdle s" "diff_minutes (time_now env) (lastActivity s) < idleTimeout s"
    and r: "resolveEmoji (picked env) s = (e, s')"
    and st: "sessionStep ws (time_now env) s' = (diff, interval, s1)"
  shows "updateStatus ws env s =
     (Inr interval,
      s1\<lparr>requests := requests s1 @
           [\<lparr>emoji = Some ('':'' @ e @ '':''),
             expiresAt = Some (OFFSET + date_now env + expires s1 * 60000),
             limitedAvailability = None,
             message = Some (activeMessage ws (currentLanguage s1) diff)\<rparr>],
         console := console s1 @
           (case reply env of Accepted \<Rightarrow> [] | Rejected \<Rightarrow> [ErrorLog SinkPushError])\<rparr>)"
proof -
  from r resolveEmoji_state [of "picked env" s]
  have s': "s' = s\<lparr>config_emoji := config_emoji s'\<rparr>" by simp
  have "isIdle s' = isIdle s" "idleTimeout s' = idleTimeout s" "lastActivity s' = lastActivity s"
    by (subst s', simp)+
  with assms(1,2) show ?thesis
    by (cases "reply env") (simp_all add: updateStatus_def r st changeUserStatus_eq)
qed

subsection \<open>Idle classification\<close>

lemma gap_minutes:
  assumes "0 \<le> G" "0 \<le> r" "r < 60000"
  shows "diff_minutes (a + G * 60000 + r) a = G"
proof -
  have "(G * 60000 + r) div 60000 = G" using assms by simp
  moreover have "0 \<le> G * 60000 + r" using assms by simp
  ultimately show ?thesis by (simp add: diff_minutes_def)
qed

lemma updateStatus_isIdle:
  assumes "\<not> isIdle s"
  shows "isIdle (snd (updateStatus ws env s)) \<longleftrightarrow>
     idleTimeout s \<le> diff_minutes (time_now env) (lastActivity s)"
proof (cases "idleTimeout s \<le> diff_minutes (time_now env) (lastActivity s)")
  case True
  with assms show ?thesis
    by (simp add: updateStatus_goes_idle setIdle_eq)
next
  case False
  obtain e s' where r: "resolveEmoji (picked env) s = (e, s')"
    by (cases "resolveEmoji (picked env) s")
  obtain d i s1 where st: "sessionStep ws (time_now env) s' = (d, i, s1)"
    by (cases "sessionStep ws (time_now env) s'")
  from r resolveEmoji_state [of "picked env" s]
  have s': "s' = s\<lparr>config_emoji := config_emoji s'\<rparr>" by simp
  have "isIdle s' = isIdle s" by (subst s', simp)
  with assms have "\<not> isIdle s'" by simp
  with st have "\<not> isIdle s1"
    by (cases "start s'") (auto simp add: sessionStep_first sessionStep_later)
  with False assms show ?thesis
    by (simp add: updateStatus_active [OF _ _ r st])
qed

text \<open>
  Claim C4. At a push made while \<open>isIdle\<close> is false, with the idle threshold
  \<open>idleTimeout\<close> and a clock that is \<open>G\<close> whole minutes (and \<open>r\<close> further
  milliseconds, less than a minute) past the last recorded activity, the push
  classifies the user as idle, setting \<open>isIdle\<close>, exactly when \<open>G\<close> is at least the
  threshold. The boundary \<open>G = idleTimeout\<close> is idle.
\<close>

theorem idle_classification:
  assumes "0 \<le> G" "0 \<le> r" "r < 60000"
    and "\<not> isIdle s"
    and "time_now env = lastActivity s + G * 60000 + r"
  shows "isIdle (snd (updateStatus ws env s)) \<longleftrightarrow> idleTimeout s \<le> G"
  using updateStatus_isIdle [OF assms(4), of ws env] gap_minutes [OF assms(1-3)] assms(5)
  by simp

theorem idle_classification_witness:
  "isIdle (snd (updateStatus ''demo'' (at_minute 15) scenario)) \<and>
   \<not> isIdle (snd (updateStatus ''demo'' (at_minute 14) scenario))"
proof -
  have a: "\<not> isIdle scenario" by (simp add: scenario_def)
  have "isIdle (snd (updateStatus ''demo'' (at_minute 15) scenario)) \<longleftrightarrow> idleTimeout scenario \<le> 15"
    by (rule idle_classification [of 15 0]) (simp_all add: a, simp add: scenario_def at_minute_def)
  moreover
  have "isIdle (snd (updateStatus ''demo'' (at_minute 14) scenario)) \<longleftrightarrow> idleTimeout scenario \<le> 14"
    by (rule idle_classification [of 14 0]) (simp_all add: a, simp add: scenario_def at_minute_def)
  ultimately show ?thesis by (simp add: scenario_def)
qed

subsection \<open>Pushes while idle\<close>

lemma updateStatus_while_idle_state:
  assumes "isIdle s"
  shows "\<exists>c. snd (updateStatus ws env s) = s\<lparr>config_emoji := c\<rparr>"
proof -
  have "snd (updateStatus ws env s) = snd (resolveEmoji (picked env) s)"
    using assms by (simp add: updateStatus_while_idle)
  with resolveEmoji_state [of "picked env" s] show ?thesis
    by metis
qed

lemma pushes_while_idle:
  "isIdle s \<Longrightarrow> \<exists>c. pushes ws envs s = s\<lparr>config_emoji := c\<rparr>"
proof (induction envs arbitrary: s)
  case Nil
  have "s = s\<lparr>config_emoji := config_emoji s\<rparr>" by simp
  then show ?case by (metis pushes.simps(1))
next
  case (Cons env envs)
  from updateStatus_while_idle_state [OF Cons.prems, of ws env]
  obtain c where c: "snd (updateStatus ws env s) = s\<lparr>config_emoji := c\<rparr>" ..
  from Cons.prems have "isIdle (s\<lparr>config_emoji := c\<rparr>)" by simp
  from Cons.IH [OF this]
  obtain c' where "pushes ws envs (s\<lparr>config_emoji := c\<rparr>) = s\<lparr>config_emoji := c, config_emoji := c'\<rparr>" ..
  then have "pushes ws (env # envs) s = s\<lparr>config_emoji := c'\<rparr>"
    by (simp add: c)
  then show ?case ..
qed

text \<open>
  Claim C10. A call of \<^verbatim>\<open>updateStatus\<close> made while \<open>isIdle\<close> is true resolves to
  \<^verbatim>\<open>null\<close>, issues no request to the status sink and leaves every field of the service
  as it was: the state differs at most in the host's \<^verbatim>\<open>emoji\<close> setting, which the
  emoji prompt at the head of the call saves when none was configured. The same holds
  for any number of further scheduled pushes, so the idle status is sent once per idle
  period.
\<close>

theorem push_while_idle_is_noop:
  assumes "isIdle s"
  shows "fst (updateStatus ws env s) = Inr None \<and>
         requests (snd (updateStatus ws env s)) = requests s \<and>
         snd (updateStatus ws env s) =
           s\<lparr>config_emoji := config_emoji (snd (updateStatus ws env s))\<rparr> \<and>
         requests (pushes ws envs s) = requests s \<and>
         isIdle (pushes ws envs s) \<and>
         pushes ws envs s = s\<lparr>config_emoji := config_emoji (pushes ws envs s)\<rparr>"
proof -
  from updateStatus_while_idle_state [OF assms, of ws env]
  obtain c where c: "snd (updateStatus ws env s) = s\<lparr>config_emoji := c\<rparr>" ..
  from pushes_while_idle [OF assms, of ws envs]
  obtain c' where c': "pushes ws envs s = s\<lparr>config_emoji := c'\<rparr>" ..
  have "fst (updateStatus ws env s) = Inr None"
    using assms by (simp add: updateStatus_while_idle)
  moreover have "requests (snd (updateStatus ws env s)) = requests s"
    by (simp add: c)
  moreover have "snd (updateStatus ws env s) =
      s\<lparr>config_emoji := config_emoji (snd (updateStatus ws env s))\<rparr>"
    by (simp add: c)
  moreover have "requests (pushes ws envs s) = requests s"
    by (simp add: c')
  moreover have "isIdle (pushes ws envs s)"
    using assms by (simp add: c')
  moreover have "pushes ws envs s = s\<lparr>config_emoji := config_emoji (pushes ws envs s)\<rparr>"
    by (simp add: c')
  ultimately show ?thesis by blast
qed

theorem push_while_idle_is_noop_witness:
  "isIdle (scenario\<lparr>isIdle := True\<rparr>) \<and>
   fst (updateStatus ''demo'' (at_minute 20) (scenario\<lparr>isIdle := True\<rparr>)) = Inr None \<and>
   requests (snd (updateStatus ''demo'' (at_minute 20) (scenario\<lparr>isIdle := True\<rparr>))) = [] \<and>
   requests (pushes ''demo'' [at_minute 21, at_minute 22] (scenario\<lparr>isIdle := True\<rparr>)) = []"
proof -
  have a: "isIdle (scenario\<lparr>isIdle := True\<rparr>)" by simp
  have b: "requests (scenario\<lparr>isIdle := True\<rparr>) = []" by (simp add: scenario_def)
  from push_while_idle_is_noop [OF a, of "''demo''" "at_minute 20" "[at_minute 21, at_minute 22]"] a b
  show ?thesis by simp
qed

subsection \<open>The transition to idle\<close>

lemma idleStatus_fields:
  "idleStatus now s =
     \<lparr>emoji = Some ('':'' @ (case config_emojiDefault s of
                               Some d \<Rightarrow> if d \<noteq> [] then d else ''zzz''
                             | None \<Rightarrow> ''zzz'') @ '':''),
      expiresAt = Some (now + 3600000),
      limitedAvailability = None,
      message = Some ''Idle - Away from keyboard''\<rparr>"
  by (simp add: idleStatus_def)

lemma updateStatus_goes_idle_state:
  assumes "\<not> isIdle s" "idleTimeout s \<le> diff_minutes (time_now env) (lastActivity s)"
  shows "\<exists>c. snd (updateStatus ws env s) =
     s\<lparr>config_emoji := c, isIdle := True,
       requests := requests s @ [idleStatus (date_now env) s],
       console := console s @
         (case reply env of Accepted \<Rightarrow> [] | Rejected \<Rightarrow> [ErrorLog SinkPushError])\<rparr>"
proof -
  obtain c where c: "snd (resolveEmoji (picked env) s) = s\<lparr>config_emoji := c\<rparr>"
    using resolveEmoji_state [of "picked env" s] by metis
  have "idleStatus (date_now env) (s\<lparr>config_emoji := c, isIdle := True\<rparr>) = idleStatus (date_now env) s"
    by (simp add: idleStatus_def)
  then have "snd (updateStatus ws env s) =
     s\<lparr>config_emoji := c, isIdle := True,
       requests := requests s @ [idleStatus (date_now env) s],
       console := console s @
         (case reply env of Accepted \<Rightarrow> [] | Rejected \<Rightarrow> [ErrorLog SinkPushError])\<rparr>"
    using assms by (simp add: updateStatus_goes_idle setIdle_eq c)
  then show ?thesis ..
qed

text \<open>
  Claim C2, as the code has it. A push that finds the idle threshold reached while
  \<open>isIdle\<close> is false resolves to \<^verbatim>\<open>null\<close>, sets \<open>isIdle\<close> and sends one status: the
  message \<^verbatim>\<open>Idle - Away from keyboard\<close>, the emoji \<^verbatim>\<open>:zzz:\<close> when \<^verbatim>\<open>emojiDefault\<close> is not
  configured, and an expiry one hour after the clock reading of \<^verbatim>\<open>setIdle\<close>. It creates
  no timer and cancels none: the live timers are the same before and after. Whatever
  scheduled pushes follow while the service stays idle send nothing.
\<close>

theorem idle_transition:
  assumes "\<not> isIdle s" "idleTimeout s \<le> diff_minutes (time_now env) (lastActivity s)"
  shows "fst (updateStatus ws env s) = Inr None \<and>
         isIdle (snd (updateStatus ws env s)) \<and>
         requests (snd (updateStatus ws env s)) =
           requests s @
           [\<lparr>emoji = Some ('':'' @ (case config_emojiDefault s of
                                     Some d \<Rightarrow> if d \<noteq> [] then d else ''zzz''
                                   | None \<Rightarrow> ''zzz'') @ '':''),
             expiresAt = Some (date_now env + 3600000),
             limitedAvailability = None,
             message = Some ''Idle - Away from keyboard''\<rparr>] \<and>
         timers (snd (updateStatus ws env s)) = timers s \<and>
         timer_count (snd (updateStatus ws env s)) = timer_count s \<and>
         requests (pushes ws' envs (snd (updateStatus ws env s))) =
           requests (snd (updateStatus ws env s))"
proof -
  from updateStatus_goes_idle_state [OF assms, of ws]
  obtain c where c: "snd (updateStatus ws env s) =
     s\<lparr>config_emoji := c, isIdle := True,
       requests := requests s @ [idleStatus (date_now env) s],
       console := console s @
         (case reply env of Accepted \<Rightarrow> [] | Rejected \<Rightarrow> [ErrorLog SinkPushError])\<rparr>" ..
  have idle: "isIdle (snd (updateStatus ws env s))"
    by (simp add: c)
  from pushes_while_idle [OF idle, of ws' envs]
  obtain c' where "pushes ws' envs (snd (updateStatus ws env s)) =
      (snd (updateStatus ws env s))\<lparr>config_emoji := c'\<rparr>" ..
  then have later: "requests (pushes ws' envs (snd (updateStatus ws env s))) =
      requests (snd (updateStatus ws env s))"
    by simp
  have "fst (updateStatus ws env s) = Inr None"
    using assms by (simp add: updateStatus_goes_idle)
  moreover have "requests (snd (updateStatus ws env s)) =
      requests s @ [idleStatus (date_now env) s]"
    by (simp add: c)
  moreover have "timers (snd (updateStatus ws env s)) = timers s"
    by (simp add: c)
  moreover have "timer_count (snd (updateStatus ws env s)) = timer_count s"
    by (simp add: c)
  ultimately show ?thesis
    using idle later by (simp add: idleStatus_fields)
qed

lemma scenario_first_push:
  "snd (updateStatus ''demo'' (at_minute 0) scenario) =
     scenario\<lparr>start := Some 0,
       timers := [\<lparr>handle = 0, period = 60000, target = ''demo''\<rparr>],
       timer_count := 1,
       requests := [\<lparr>emoji = Some '':computer:'', expiresAt = Some 70000,
                     limitedAvailability = None, message = Some ''Working on demo''\<rparr>]\<rparr>"
  by (simp add: scenario_def at_minute_def updateStatus_def resolveEmoji_def sessionStep_def
      changeUserStatus_def diff_minutes_def activeMessage_def OFFSET_def)

theorem idle_transition_witness:
  "\<not> isIdle (snd (updateStatus ''demo'' (at_minute 0) scenario)) \<and>
   idleTimeout (snd (updateStatus ''demo'' (at_minute 0) scenario))
     \<le> diff_minutes (time_now (at_minute 16))
          (lastActivity (snd (updateStatus ''demo'' (at_minute 0) scenario))) \<and>
   fst (updateStatus ''demo'' (at_minute 16) (snd (updateStatus ''demo'' (at_minute 0) scenario)))
     = Inr None \<and>
   requests (snd (updateStatus ''demo'' (at_minute 16)
       (snd (updateStatus ''demo'' (at_minute 0) scenario)))) =
     [\<lparr>emoji = Some '':computer:'', expiresAt = Some 70000,
       limitedAvailability = None, message = Some ''Working on demo''\<rparr>,
      \<lparr>emoji = Some '':zzz:'', expiresAt = Some 4560000,
       limitedAvailability = None, message = Some ''Idle - Away from keyboard''\<rparr>]"
proof -
  let ?s = "snd (updateStatus ''demo'' (at_minute 0) scenario)"
  have a: "\<not> isIdle ?s"
    by (simp add: scenario_first_push) (simp add: scenario_def)
  have b: "idleTimeout ?s \<le> diff_minutes (time_now (at_minute 16)) (lastActivity ?s)"
    by (simp add: scenario_first_push) (simp add: scenario_def at_minute_def diff_minutes_def)
  from idle_transition [OF a b, of "''demo''" "''demo''" "[]"] a b
  show ?thesis
    by (simp add: scenario_first_push) (simp add: scenario_def at_minute_def)
qed

text \<open>
  The claim's last part fails: after the transition of the scenario (activity at
  minute 0, threshold 15, the push of minute 16 goes idle) the interval timer created
  by the first push is still live, and its next firing runs \<^verbatim>\<open>updateStatus\<close> again.
\<close>

theorem timer_survives_idle_counterexample:
  "isIdle (pushes ''demo'' [at_minute 0, at_minute 16] scenario) \<and>
   timers (pushes ''demo'' [at_minute 0, at_minute 16] scenario) =
     [\<lparr>handle = 0, period = 60000, target = ''demo''\<rparr>] \<and>
   tick 0 (at_minute 17) (pushes ''demo'' [at_minute 0, at_minute 16] scenario) \<noteq> None"
  by (simp add: scenario_first_push tick_def)
    (simp add: scenario_def at_minute_def updateStatus_def resolveEmoji_def setIdle_eq diff_minutes_def)

subsection \<open>The messages of an active session\<close>

lemma updateStatus_first_push:
  assumes "\<not> isIdle s" "diff_minutes (time_now env) (lastActivity s) < idleTimeout s"
    and "start s = None"
  shows "\<exists>e c. snd (updateStatus ws env s) =
     s\<lparr>config_emoji := c,
       start := Some (time_now env),
       timers := timers s @
         [\<lparr>handle = timer_count s, period = expires s * 60000, target = ws\<rparr>],
       timer_count := Suc (timer_count s),
       requests := requests s @
         [\<lparr>emoji = Some ('':'' @ e @ '':''),
           expiresAt = Some (OFFSET + date_now env + expires s * 60000),
           limitedAvailability = None,
           message = Some (activeMessage ws (currentLanguage s) [])\<rparr>],
       console := console s @
         (case reply env of Accepted \<Rightarrow> [] | Rejected \<Rightarrow> [ErrorLog SinkPushError])\<rparr>"
proof -
  obtain e s' where r: "resolveEmoji (picked env) s = (e, s')"
    by (cases "resolveEmoji (picked env) s")
  with resolveEmoji_state [of "picked env" s]
  obtain c where s': "s' = s\<lparr>config_emoji := c\<rparr>" by (metis snd_conv)
  have "start s' = None" using assms(3) by (simp add: s')
  note st = sessionStep_first [OF this, of ws "time_now env"]
  have "snd (updateStatus ws env s) =
     s\<lparr>config_emoji := c,
       start := Some (time_now env),
       timers := timers s @
         [\<lparr>handle = timer_count s, period = expires s * 60000, target = ws\<rparr>],
       timer_count := Suc (timer_count s),
       requests := requests s @
         [\<lparr>emoji = Some ('':'' @ e @ '':''),
           expiresAt = Some (OFFSET + date_now env + expires s * 60000),
           limitedAvailability = None,
           message = Some (activeMessage ws (currentLanguage s) [])\<rparr>],
       console := console s @
         (case reply env of Accepted \<Rightarrow> [] | Rejected \<Rightarrow> [ErrorLog SinkPushError])\<rparr>"
    by (simp add: updateStatus_active [OF assms(1,2) r st]) (simp add: s')
  then show ?thesis by blast
qed

lemma updateStatus_later_push:
  assumes "\<not> isIdle s" "diff_minutes (time_now env) (lastActivity s) < idleTimeout s"
    and "start s = Some st"
  shows "\<exists>e c l. snd (updateStatus ws env s) =
     s\<lparr>config_emoji := c,
       requests := requests s @
         [\<lparr>emoji = Some ('':'' @ e @ '':''),
           expiresAt = Some (OFFSET + date_now env + expires s * 60000),
           limitedAvailability = None,
           message = Some (activeMessage ws (currentLanguage s)
                             (durationText (diff_minutes (time_now env) st)))\<rparr>],
       console := console s @ l\<rparr>"
proof -
  obtain e s' where r: "resolveEmoji (picked env) s = (e, s')"
    by (cases "resolveEmoji (picked env) s")
  with resolveEmoji_state [of "picked env" s]
  obtain c where s': "s' = s\<lparr>config_emoji := c\<rparr>" by (metis snd_conv)
  have "start s' = Some st" using assms(3) by (simp add: s')
  note st = sessionStep_later [OF this, of ws "time_now env"]
  let ?d = "diff_minutes (time_now env) st"
  let ?l = "(if ?d > 60 then [DebugLog ?d ?d (?d div 60) (?d mod 60)] else []) @
            (case reply env of Accepted \<Rightarrow> [] | Rejected \<Rightarrow> [ErrorLog SinkPushError])"
  have "snd (updateStatus ws env s) =
     s\<lparr>config_emoji := c,
       requests := requests s @
         [\<lparr>emoji = Some ('':'' @ e @ '':''),
           expiresAt = Some (OFFSET + date_now env + expires s * 60000),
           limitedAvailability = None,
           message = Some (activeMessage ws (currentLanguage s) (durationText ?d))\<rparr>],
       console := console s @ ?l\<rparr>"
    by (simp add: updateStatus_active [OF assms(1,2) r st]) (simp add: s')
  then show ?thesis by blast
qed

text \<open>
  Claim C3, as the code has it. With no language observed and no idle transition, the
  first push of a session on workspace \<^verbatim>\<open>demo\<close> sends the message \<^verbatim>\<open>Working on demo\<close>, and
  a push two minutes (and less than three) after it sends
  \<^verbatim>\<open>Working on demo for (2 minutes)\<close>: the duration follows the word \<^verbatim>\<open>for\<close>.
\<close>

theorem demo_messages:
  assumes "start s = None" "\<not> isIdle s" "currentLanguage s = None"
    and "diff_minutes (time_now e1) (lastActivity s) < idleTimeout s"
    and "diff_minutes (time_now e2) (lastActivity s) < idleTimeout s"
    and "time_now e2 = time_now e1 + 2 * 60000 + r" "0 \<le> r" "r < 60000"
  shows "map message (requests (pushes ''demo'' [e1, e2] s)) =
         map message (requests s) @
           [Some ''Working on demo'', Some ''Working on demo for (2 minutes)'']"
proof -
  let ?s1 = "snd (updateStatus ''demo'' e1 s)"
  from updateStatus_first_push [OF assms(2,4,1), of "''demo''"]
  obtain e c where s1: "?s1 =
     s\<lparr>config_emoji := c,
       start := Some (time_now e1),
       timers := timers s @
         [\<lparr>handle = timer_count s, period = expires s * 60000, target = ''demo''\<rparr>],
       timer_count := Suc (timer_count s),
       requests := requests s @
         [\<lparr>emoji = Some ('':'' @ e @ '':''),
           expiresAt = Some (OFFSET + date_now e1 + expires s * 60000),
           limitedAvailability = None,
           message = Some (activeMessage ''demo'' (currentLanguage s) [])\<rparr>],
       console := console s @
         (case reply e1 of Accepted \<Rightarrow> [] | Rejected \<Rightarrow> [ErrorLog SinkPushError])\<rparr>"
    by blast
  have a: "\<not> isIdle ?s1" using assms(2) by (simp add: s1)
  have b: "diff_minutes (time_now e2) (lastActivity ?s1) < idleTimeout ?s1"
    using assms(5) by (simp add: s1)
  have st: "start ?s1 = Some (time_now e1)" by (simp add: s1)
  have two: "diff_minutes (time_now e2) (time_now e1) = 2"
    using gap_minutes [of 2 r "time_now e1"] assms(6-8) by simp
  from updateStatus_later_push [OF a b st, of "''demo''"]
  obtain e' c' l where s2: "snd (updateStatus ''demo'' e2 ?s1) =
     ?s1\<lparr>config_emoji := c',
       requests := requests ?s1 @
         [\<lparr>emoji = Some ('':'' @ e' @ '':''),
           expiresAt = Some (OFFSET + date_now e2 + expires ?s1 * 60000),
           limitedAvailability = None,
           message = Some (activeMessage ''demo'' (currentLanguage ?s1)
                             (durationText (diff_minutes (time_now e2) (time_now e1))))\<rparr>],
       console := console ?s1 @ l\<rparr>"
    by blast
  have m1: "map message (requests ?s1) =
      map message (requests s) @ [Some (activeMessage ''demo'' (currentLanguage s) [])]"
    by (simp add: s1)
  have lang: "currentLanguage ?s1 = currentLanguage s"
    by (simp add: s1)
  have m2: "map message (requests (snd (updateStatus ''demo'' e2 ?s1))) =
      map message (requests ?s1) @
        [Some (activeMessage ''demo'' (currentLanguage ?s1) (durationText 2))]"
    by (simp add: s2 two)
  have "activeMessage ''demo'' None [] = ''Working on demo''"
    by (simp add: activeMessage_def)
  moreover have "activeMessage ''demo'' None (durationText 2) = ''Working on demo for (2 minutes)''"
    by (simp add: activeMessage_def durationText_def numberText_def plural_def digits.simps)
  ultimately show ?thesis
    using assms(3) by (simp add: m2 m1 lang)
qed

theorem demo_messages_witness:
  "start scenario = None \<and> \<not> isIdle scenario \<and> currentLanguage scenario = None \<and>
   diff_minutes (time_now (at_minute 0)) (lastActivity scenario) < idleTimeout scenario \<and>
   diff_minutes (time_now (at_minute 2)) (lastActivity scenario) < idleTimeout scenario \<and>
   map message (requests (pushes ''demo'' [at_minute 0, at_minute 2] scenario)) =
     [Some ''Working on demo'', Some ''Working on demo for (2 minutes)'']"
proof -
  have h: "start scenario = None" "\<not> isIdle scenario" "currentLanguage scenario = None"
    "diff_minutes (time_now (at_minute 0)) (lastActivity scenario) < idleTimeout scenario"
    "diff_minutes (time_now (at_minute 2)) (lastActivity scenario) < idleTimeout scenario"
    by (simp_all add: scenario_def at_minute_def diff_minutes_def)
  have t: "time_now (at_minute 2) = time_now (at_minute 0) + 2 * 60000 + 0"
    by (simp add: at_minute_def)
  have "requests scenario = []" by (simp add: scenario_def)
  with demo_messages [OF h t] h show ?thesis by simp
qed

text \<open>
  The message the claim gives for the second push is not the one sent: in the claim's
  scenario the push of minute 2 sends a message with \<^verbatim>\<open>for\<close> before the duration.
\<close>

theorem demo_second_message_counterexample:
  "message (last (requests (pushes ''demo'' [at_minute 0, at_minute 2] scenario))) \<noteq>
     Some ''Working on demo (2 minutes)''"
  by (simp add: scenario_first_push)
    (simp add: scenario_def at_minute_def updateStatus_def resolveEmoji_def sessionStep_def
      changeUserStatus_def diff_minutes_def activeMessage_def durationText_def numberText_def
      plural_def digits.simps)

subsection \<open>The duration text\<close>

lemma duration_up_to_sixty:
  "N \<le> 60 \<Longrightarrow>
   durationText N = ''('' @ numberText N @ '' minute'' @ (if N > 1 then ''s'' else []) @ '')''"
  by (simp add: durationText_def plural_def)

lemma duration_above_sixty:
  "60 < N \<Longrightarrow>
   durationText N =
     ''('' @ numberText (N div 60) @ '' hour'' @ (if N div 60 > 1 then ''s'' else []) @ '' '' @
     numberText (N mod 60) @ '' minute'' @ (if N mod 60 > 1 then ''s'' else []) @ '')''"
  by (simp add: durationText_def plural_def Let_def)

text \<open>
  Claim C6 at \<open>N = 60\<close>. The claim renders sixty elapsed minutes as one hour and no
  minutes. The code takes the hours branch only when \<open>diffN > 60\<close>: at sixty minutes
  the duration text is \<^verbatim>\<open>(60 minutes)\<close>, and so is the message a push sends one hour after
  the start of the session. (For \<open>N\<close> below 60 and above 60 the text is the claim's:
  \<open>duration_up_to_sixty\<close>, \<open>duration_above_sixty\<close>.)
\<close>

theorem sixty_minutes_rendering:
  "durationText 60 = ''(60 minutes)'' \<and>
   durationText 61 = ''(1 hour 1 minute)'' \<and>
   map message
     (requests (pushes ''demo'' [at_minute 0, at_minute 60] (scenario\<lparr>idleTimeout := 90\<rparr>))) =
     [Some ''Working on demo'', Some ''Working on demo for (60 minutes)'']"
proof -
  have a: "durationText 60 = ''(60 minutes)''"
    by (simp add: durationText_def numberText_def plural_def digits.simps)
  have b: "durationText 61 = ''(1 hour 1 minute)''"
    by (simp add: durationText_def numberText_def plural_def digits.simps)
  have "snd (updateStatus ''demo'' (at_minute 0) (scenario\<lparr>idleTimeout := 90\<rparr>)) =
     scenario\<lparr>idleTimeout := 90, start := Some 0,
       timers := [\<lparr>handle = 0, period = 60000, target = ''demo''\<rparr>],
       timer_count := 1,
       requests := [\<lparr>emoji = Some '':computer:'', expiresAt = Some 70000,
                     limitedAvailability = None, message = Some ''Working on demo''\<rparr>]\<rparr>"
    by (simp add: scenario_def at_minute_def updateStatus_def resolveEmoji_def sessionStep_def
        changeUserStatus_def diff_minutes_def activeMessage_def OFFSET_def)
  then have "map message
     (requests (pushes ''demo'' [at_minute 0, at_minute 60] (scenario\<lparr>idleTimeout := 90\<rparr>))) =
     [Some ''Working on demo'', Some (''Working on demo for '' @ durationText 60)]"
    by (simp add: scenario_def at_minute_def updateStatus_def resolveEmoji_def sessionStep_def
        changeUserStatus_def diff_minutes_def activeMessage_def durationText_def)
  with a b show ?thesis by simp
qed

subsection \<open>Resuming from idle\<close>

lemma updateStatus_keeps_start:
  assumes "start s = Some st"
  shows "start (snd (updateStatus ws env s)) = Some st"
proof (cases "isIdle s")
  case True
  from updateStatus_while_idle_state [OF True, of ws env] assms show ?thesis
    by auto
next
  case False
  show ?thesis
  proof (cases "idleTimeout s \<le> diff_minutes (time_now env) (lastActivity s)")
    case True
    from updateStatus_goes_idle_state [OF False True, of ws] assms show ?thesis
      by auto
  next
    case idle: False
    then have "diff_minutes (time_now env) (lastActivity s) < idleTimeout s" by simp
    from updateStatus_later_push [OF False this assms, of ws] show ?thesis
      using assms by auto
  qed
qed

lemma onActivity_keeps_start:
  "start s = Some st \<Longrightarrow> start (onActivity now w env s) = Some st"
  by (cases w) (simp_all add: onActivity_def Let_def truthy_def updateStatus_keeps_start)

lemma resetActivity_restarts:
  assumes "diff_minutes (time_now env) now < idleTimeout s"
  shows "start (snd (updateStatus ws env (resetActivity now s))) = Some (time_now env)"
proof -
  have a: "\<not> isIdle (resetActivity now s)" "start (resetActivity now s) = None"
    by (simp_all add: resetActivity_def)
  have b: "diff_minutes (time_now env) (lastActivity (resetActivity now s))
      < idleTimeout (resetActivity now s)"
    using assms by (simp add: resetActivity_def)
  from updateStatus_first_push [OF a(1) b a(2), of ws] show ?thesis
    by auto
qed

text \<open>
  Claim C1 on the \<^verbatim>\<open>onActivity\<close> path. In the scenario the session starts at minute 0
  and goes idle at minute 16; an activity event at minute 100 clears \<open>isIdle\<close> and
  pushes at once, but the start of the session is still minute 0 and the message
  reports one hour and forty minutes, where the claim has the start reset to the
  resume time and the elapsed time restarting from zero. (\<^verbatim>\<open>resetActivity\<close> does unset
  the start, and the push after it records the new one: \<open>resetActivity_restarts\<close>.)
\<close>

theorem resume_by_activity_keeps_start:
  "isIdle (pushes ''demo'' [at_minute 0, at_minute 16] scenario) \<and>
   \<not> isIdle (onActivity 6000000 (Some ''demo'') (at_minute 100)
              (pushes ''demo'' [at_minute 0, at_minute 16] scenario)) \<and>
   start (onActivity 6000000 (Some ''demo'') (at_minute 100)
            (pushes ''demo'' [at_minute 0, at_minute 16] scenario)) = Some 0 \<and>
   message (last (requests (onActivity 6000000 (Some ''demo'') (at_minute 100)
            (pushes ''demo'' [at_minute 0, at_minute 16] scenario)))) =
     Some ''Working on demo for (1 hour 40 minutes)''"
proof -
  have idle: "pushes ''demo'' [at_minute 0, at_minute 16] scenario =
     scenario\<lparr>start := Some 0,
       timers := [\<lparr>handle = 0, period = 60000, target = ''demo''\<rparr>],
       timer_count := 1,
       isIdle := True,
       requests := [\<lparr>emoji = Some '':computer:'', expiresAt = Some 70000,
                     limitedAvailability = None, message = Some ''Working on demo''\<rparr>,
                    \<lparr>emoji = Some '':zzz:'', expiresAt = Some 4560000,
                     limitedAvailability = None,
                     message = Some ''Idle - Away from keyboard''\<rparr>]\<rparr>"
    by (simp add: scenario_first_push)
      (simp add: scenario_def at_minute_def updateStatus_def resolveEmoji_def setIdle_eq
        idleStatus_def diff_minutes_def)
  have d: "durationText 100 = ''(1 hour 40 minutes)''"
    by (simp add: durationText_def numberText_def plural_def digits.simps)
  show ?thesis
    unfolding idle
    by (simp add: scenario_def at_minute_def onActivity_def truthy_def updateStatus_def
        resolveEmoji_def sessionStep_def changeUserStatus_def diff_minutes_def activeMessage_def d)
qed

subsection \<open>A continuous active run\<close>

lemma diff_minutes_mono:
  assumes "a \<le> b"
  shows "diff_minutes a c \<le> diff_minutes b c"
proof -
  consider "0 \<le> a - c" | "a - c < 0" "0 \<le> b - c" | "b - c < 0" by linarith
  then show ?thesis
  proof cases
    case 1
    with assms have "(a - c) div 60000 \<le> (b - c) div 60000"
      by (intro zdiv_mono1) simp_all
    with 1 assms show ?thesis by (simp add: diff_minutes_def)
  next
    case 2
    then have "0 \<le> (- (a - c)) div 60000" "0 \<le> (b - c) div 60000"
      by simp_all
    with 2 show ?thesis by (simp add: diff_minutes_def)
  next
    case 3
    with assms have "(- (b - c)) div 60000 \<le> (- (a - c)) div 60000"
      by (intro zdiv_mono1) simp_all
    with 3 assms show ?thesis by (simp add: diff_minutes_def)
  qed
qed

lemma elapsed_sorted:
  "sorted (map time_now envs) \<Longrightarrow>
   sorted (map (\<lambda>env. diff_minutes (time_now env) st) envs)"
  by (induction envs) (auto simp add: diff_minutes_mono)

lemma active_run:
  assumes "start s = Some st" "\<not> isIdle s"
    and "\<forall>env \<in> set envs. diff_minutes (time_now env) (lastActivity s) < idleTimeout s"
  shows "start (pushes ws envs s) = Some st \<and>
         \<not> isIdle (pushes ws envs s) \<and>
         map message (requests (pushes ws envs s)) =
           map message (requests s) @
           map (\<lambda>env. Some (activeMessage ws (currentLanguage s)
                               (durationText (diff_minutes (time_now env) st)))) envs"
  using assms
proof (induction envs arbitrary: s)
  case Nil
  then show ?case by simp
next
  case (Cons env envs)
  let ?s1 = "snd (updateStatus ws env s)"
  from Cons.prems(3)
  have now: "diff_minutes (time_now env) (lastActivity s) < idleTimeout s" by simp
  from updateStatus_later_push [OF Cons.prems(2) now Cons.prems(1), of ws]
  obtain e c l where s1: "?s1 =
     s\<lparr>config_emoji := c,
       requests := requests s @
         [\<lparr>emoji = Some ('':'' @ e @ '':''),
           expiresAt = Some (OFFSET + date_now env + expires s * 60000),
           limitedAvailability = None,
           message = Some (activeMessage ws (currentLanguage s)
                             (durationText (diff_minutes (time_now env) st)))\<rparr>],
       console := console s @ l\<rparr>"
    by blast
  have a: "start ?s1 = Some st" "\<not> isIdle ?s1"
    using Cons.prems(1,2) by (simp_all add: s1)
  have b: "\<forall>env \<in> set envs. diff_minutes (time_now env) (lastActivity ?s1) < idleTimeout ?s1"
    using Cons.prems(3) by (simp add: s1)
  have lang: "currentLanguage ?s1 = currentLanguage s"
    by (simp add: s1)
  have m: "map message (requests ?s1) =
      map message (requests s) @
      [Some (activeMessage ws (currentLanguage s) (durationText (diff_minutes (time_now env) st)))]"
    by (simp add: s1)
  from Cons.IH [OF a b] show ?case
    by (simp add: lang m)
qed

text \<open>
  Claim C5. A run of scheduled pushes of a session already started, none of which
  finds the idle threshold reached: the start of the session is the same after the
  run, the service is still active, each push sends the message built from the minutes
  elapsed between the start and its own clock reading, and when the clock readings do
  not go back these elapsed minutes do not decrease from one push to the next.
\<close>

theorem active_run_keeps_start:
  assumes "start s = Some st" "\<not> isIdle s"
    and "\<forall>env \<in> set envs. diff_minutes (time_now env) (lastActivity s) < idleTimeout s"
    and "sorted (map time_now envs)"
  shows "start (pushes ws envs s) = Some st \<and>
         \<not> isIdle (pushes ws envs s) \<and>
         map message (requests (pushes ws envs s)) =
           map message (requests s) @
           map (\<lambda>env. Some (activeMessage ws (currentLanguage s)
                               (durationText (diff_minutes (time_now env) st)))) envs \<and>
         sorted (map (\<lambda>env. diff_minutes (time_now env) st) envs)"
  using active_run [OF assms(1-3), of ws] elapsed_sorted [OF assms(4), of st]
  by simp

theorem active_run_keeps_start_witness:
  "start (snd (updateStatus ''demo'' (at_minute 0) scenario)) = Some 0 \<and>
   \<not> isIdle (snd (updateStatus ''demo'' (at_minute 0) scenario)) \<and>
   sorted (map time_now [at_minute 1, at_minute 2, at_minute 3]) \<and>
   start (pushes ''demo'' [at_minute 1, at_minute 2, at_minute 3]
            (snd (updateStatus ''demo'' (at_minute 0) scenario))) = Some 0 \<and>
   sorted (map (\<lambda>env. diff_minutes (time_now env) 0) [at_minute 1, at_minute 2, at_minute 3])"
proof -
  let ?s = "snd (updateStatus ''demo'' (at_minute 0) scenario)"
  have a: "start ?s = Some 0" "\<not> isIdle ?s"
    unfolding scenario_first_push by (simp_all add: scenario_def)
  have b: "\<forall>env \<in> set [at_minute 1, at_minute 2, at_minute 3].
      diff_minutes (time_now env) (lastActivity ?s) < idleTimeout ?s"
    unfolding scenario_first_push by (simp add: scenario_def at_minute_def diff_minutes_def)
  have c: "sorted (map time_now [at_minute 1, at_minute 2, at_minute 3])"
    by (simp add: at_minute_def)
  from active_run_keeps_start [OF a b c, of "''demo''"] a c show ?thesis
    by blast
qed

subsection \<open>A failing status sink\<close>

lemma updateStatus_rejected:
  "updateStatus ws (env\<lparr>reply := Rejected\<rparr>) s =
     (fst (updateStatus ws (env\<lparr>reply := Accepted\<rparr>) s),
      (snd (updateStatus ws (env\<lparr>reply := Accepted\<rparr>) s))
        \<lparr>console := console (snd (updateStatus ws (env\<lparr>reply := Accepted\<rparr>) s)) @
           (if requests (snd (updateStatus ws (env\<lparr>reply := Accepted\<rparr>) s)) = requests s
            then [] else [ErrorLog SinkPushError])\<rparr>)"
proof -
  obtain e s' where r: "resolveEmoji (picked env) s = (e, s')"
    by (cases "resolveEmoji (picked env) s")
  with resolveEmoji_state [of "picked env" s]
  obtain c where s': "s' = s\<lparr>config_emoji := c\<rparr>" by (metis snd_conv)
  show ?thesis
  proof (cases "isIdle s")
    case True
    then show ?thesis
      by (simp add: updateStatus_while_idle r s')
  next
    case False
    show ?thesis
    proof (cases "idleTimeout s \<le> diff_minutes (time_now env) (lastActivity s)")
      case True
      with False show ?thesis
        by (simp add: updateStatus_goes_idle setIdle_eq r s')
    next
      case active: False
      obtain d i s1 where st: "sessionStep ws (time_now env) s' = (d, i, s1)"
        by (cases "sessionStep ws (time_now env) s'")
      have q: "requests s1 = requests s"
        using st by (cases "start s'") (auto simp add: sessionStep_first sessionStep_later s')
      have a: "\<not> isIdle s"
        "diff_minutes (time_now (env\<lparr>reply := r'\<rparr>)) (lastActivity s) < idleTimeout s"
        "resolveEmoji (picked (env\<lparr>reply := r'\<rparr>)) s = (e, s')"
        "sessionStep ws (time_now (env\<lparr>reply := r'\<rparr>)) s' = (d, i, s1)" for r'
        using False active r st by simp_all
      show ?thesis
        by (simp add: updateStatus_active [OF a] q)
    qed
  qed
qed

lemma updateStatus_returns:
  "\<exists>h. fst (updateStatus ws env s) = Inr h"
proof (cases "isIdle s")
  case True
  then show ?thesis by (simp add: updateStatus_while_idle)
next
  case False
  show ?thesis
  proof (cases "idleTimeout s \<le> diff_minutes (time_now env) (lastActivity s)")
    case True
    with False show ?thesis by (simp add: updateStatus_goes_idle)
  next
    case active: False
    obtain e s' where r: "resolveEmoji (picked env) s = (e, s')"
      by (cases "resolveEmoji (picked env) s")
    obtain d i s1 where st: "sessionStep ws (time_now env) s' = (d, i, s1)"
      by (cases "sessionStep ws (time_now env) s'")
    from active have "diff_minutes (time_now env) (lastActivity s) < idleTimeout s" by simp
    from updateStatus_active [OF False this r st] show ?thesis by simp
  qed
qed

lemma updateStatus_keeps_timers:
  "set (timers s) \<subseteq> set (timers (snd (updateStatus ws env s)))"
proof (cases "isIdle s")
  case True
  from updateStatus_while_idle_state [OF True, of ws env] show ?thesis
    by auto
next
  case False
  show ?thesis
  proof (cases "idleTimeout s \<le> diff_minutes (time_now env) (lastActivity s)")
    case True
    from updateStatus_goes_idle_state [OF False True, of ws] show ?thesis
      by auto
  next
    case active: False
    then have now: "diff_minutes (time_now env) (lastActivity s) < idleTimeout s" by simp
    show ?thesis
    proof (cases "start s")
      case None
      from updateStatus_first_push [OF False now None, of ws] show ?thesis
        by auto
    next
      case (Some st)
      from updateStatus_later_push [OF False now Some, of ws] show ?thesis
        by auto
    qed
  qed
qed

text \<open>
  Claim C7. Whatever the workspace, the inputs and the state, a push whose sink call
  is rejected resolves as the same push does when the sink accepts (never with an
  error), and leaves the state that push leaves, but for the console, where the error
  is logged when a request was issued: \<open>isIdle\<close>, \<open>start\<close>, \<open>lastActivity\<close> and the
  live timers are the same, and no timer live before the push is cancelled. The same
  holds for \<^verbatim>\<open>setIdle\<close> and \<^verbatim>\<open>setDefault\<close>.
\<close>

theorem sink_failure_swallowed:
  "(\<exists>h. fst (updateStatus ws (env\<lparr>reply := Rejected\<rparr>) s) = Inr h) \<and>
   fst (updateStatus ws (env\<lparr>reply := Rejected\<rparr>) s) =
     fst (updateStatus ws (env\<lparr>reply := Accepted\<rparr>) s) \<and>
   snd (updateStatus ws (env\<lparr>reply := Rejected\<rparr>) s) =
     (snd (updateStatus ws (env\<lparr>reply := Accepted\<rparr>) s))
       \<lparr>console := console (snd (updateStatus ws (env\<lparr>reply := Accepted\<rparr>) s)) @
          (if requests (snd (updateStatus ws (env\<lparr>reply := Accepted\<rparr>) s)) = requests s
           then [] else [ErrorLog SinkPushError])\<rparr> \<and>
   isIdle (snd (updateStatus ws (env\<lparr>reply := Rejected\<rparr>) s)) =
     isIdle (snd (updateStatus ws (env\<lparr>reply := Accepted\<rparr>) s)) \<and>
   start (snd (updateStatus ws (env\<lparr>reply := Rejected\<rparr>) s)) =
     start (snd (updateStatus ws (env\<lparr>reply := Accepted\<rparr>) s)) \<and>
   lastActivity (snd (updateStatus ws (env\<lparr>reply := Rejected\<rparr>) s)) =
     lastActivity (snd (updateStatus ws (env\<lparr>reply := Accepted\<rparr>) s)) \<and>
   timers (snd (updateStatus ws (env\<lparr>reply := Rejected\<rparr>) s)) =
     timers (snd (updateStatus ws (env\<lparr>reply := Accepted\<rparr>) s)) \<and>
   set (timers s) \<subseteq> set (timers (snd (updateStatus ws (env\<lparr>reply := Rejected\<rparr>) s))) \<and>
   setIdle now Rejected s =
     (Inr (), (snd (setIdle now Accepted s))
        \<lparr>console := console (snd (setIdle now Accepted s)) @ [ErrorLog SinkPushError]\<rparr>) \<and>
   setDefault Rejected s =
     (Inr (), (snd (setDefault Accepted s))
        \<lparr>console := console (snd (setDefault Accepted s)) @
           (if requests (snd (setDefault Accepted s)) = requests s
            then [] else [ErrorLog SinkPushError])\<rparr>)"
proof -
  let ?R = "updateStatus ws (env\<lparr>reply := Rejected\<rparr>) s"
  let ?A = "updateStatus ws (env\<lparr>reply := Accepted\<rparr>) s"
  note rej = updateStatus_rejected [of ws env s]
  have res: "fst ?R = fst ?A" by (subst rej) simp
  have ok: "\<exists>h. fst ?R = Inr h"
    by (rule updateStatus_returns)
  have st: "snd ?R = (snd ?A)\<lparr>console := console (snd ?A) @
      (if requests (snd ?A) = requests s then [] else [ErrorLog SinkPushError])\<rparr>"
    by (subst rej) simp
  have f: "isIdle (snd ?R) = isIdle (snd ?A)" "start (snd ?R) = start (snd ?A)"
    "lastActivity (snd ?R) = lastActivity (snd ?A)" "timers (snd ?R) = timers (snd ?A)"
    by (subst st, simp)+
  have t: "set (timers s) \<subseteq> set (timers (snd ?R))"
    by (rule updateStatus_keeps_timers)
  have i: "setIdle now Rejected s =
     (Inr (), (snd (setIdle now Accepted s))
        \<lparr>console := console (snd (setIdle now Accepted s)) @ [ErrorLog SinkPushError]\<rparr>)"
    by (simp add: setIdle_eq)
  have d: "setDefault Rejected s =
     (Inr (), (snd (setDefault Accepted s))
        \<lparr>console := console (snd (setDefault Accepted s)) @
           (if requests (snd (setDefault Accepted s)) = requests s
            then [] else [ErrorLog SinkPushError])\<rparr>)"
    by (simp add: setDefault_eq)
  from ok res st f t i d show ?thesis by blast
qed

subsection \<open>The emoji cache\<close>

lemma getCachedEmojis_record:
  assumes "ext_context s = Some g" "stored_emojis g = Some es"
    and "stored_timestamp g = Some ts" "ts \<noteq> 0" "read_ok env"
  shows "getCachedEmojis env s =
     (if clock_read env - ts > 86400000 then None else Some es, s)"
  using assms by (simp add: getCachedEmojis_def CACHE_EXPIRY_HOURS_def)

lemma loadEmojis_try_cached:
  assumes "getCachedEmojis env s = (Some es, s')" "es \<noteq> []"
  shows "loadEmojis_try env s =
     (Inr (), s'\<lparr>emojiCache := es, emojis := fold (\<lambda>e m. m(name e \<mapsto> url e)) es Map.empty\<rparr>)"
  using assms by (simp add: loadEmojis_try_def)

lemma loadEmojis_try_miss:
  assumes "getCachedEmojis env s = (c, s')" "c = None \<or> c = Some []"
  shows "loadEmojis_try env s =
     (case fetched env of
        NetworkError \<Rightarrow> (Inl CatalogFetchError, s'\<lparr>fetches := Suc (fetches s')\<rparr>)
      | HttpError \<Rightarrow> (Inr (), s'\<lparr>fetches := Suc (fetches s')\<rparr>)
      | BodyUnparseable \<Rightarrow> (Inl CatalogParseError, s'\<lparr>fetches := Suc (fetches s')\<rparr>)
      | Directory kvs \<Rightarrow>
          (Inr (), cacheEmojis env (toCache kvs)
             (s'\<lparr>fetches := Suc (fetches s'), emojis := map_of kvs, emojiCache := toCache kvs\<rparr>)))"
  using assms by (auto simp add: loadEmojis_try_def Let_def split: fetch_outcome.splits)

lemma getCachedEmojis_state:
  "fetches (snd (getCachedEmojis env s)) = fetches s \<and>
   emojiCache (snd (getCachedEmojis env s)) = emojiCache s \<and>
   ext_context (snd (getCachedEmojis env s)) = ext_context s"
  by (simp add: getCachedEmojis_def Let_def split: option.splits)

lemma cacheEmojis_state:
  "fetches (cacheEmojis env es s) = fetches s \<and>
   emojiCache (cacheEmojis env es s) = emojiCache s"
  by (simp add: cacheEmojis_def split: option.splits write_outcome.splits)

lemma loadEmojis_returns:
  "fst (loadEmojis env s) = Inr ()"
  by (simp add: loadEmojis_def split: prod.splits sum.splits)

lemma load_serves_valid_record:
  assumes "ext_context s = Some g" "stored_emojis g = Some es" "es \<noteq> []"
    and "stored_timestamp g = Some ts" "ts \<noteq> 0" "read_ok env"
    and "clock_read env - ts \<le> 86400000"
  shows "loadEmojis env s =
     (Inr (), s\<lparr>emojiCache := es, emojis := fold (\<lambda>e m. m(name e \<mapsto> url e)) es Map.empty\<rparr>)"
proof -
  from getCachedEmojis_record [OF assms(1,2,4,5,6)] assms(7)
  have "getCachedEmojis env s = (Some es, s)" by simp
  from loadEmojis_try_cached [OF this assms(3)] show ?thesis
    by (simp add: loadEmojis_def)
qed

lemma population_record:
  assumes "ext_context s0 = Some g0"
    and "fst (getCachedEmojis env1 s0) = None \<or> fst (getCachedEmojis env1 s0) = Some []"
    and "fetched env1 = Directory kvs" "written env1 = WriteOk"
  shows "ext_context (snd (loadEmojis env1 s0)) =
           Some (g0\<lparr>stored_emojis := Some (toCache kvs),
                    stored_timestamp := Some (clock_write env1)\<rparr>) \<and>
         emojiCache (snd (loadEmojis env1 s0)) = toCache kvs \<and>
         fetches (snd (loadEmojis env1 s0)) = Suc (fetches s0)"
proof -
  obtain c s' where g: "getCachedEmojis env1 s0 = (c, s')"
    by (cases "getCachedEmojis env1 s0")
  with assms(2) have c: "c = None \<or> c = Some []" by simp
  from getCachedEmojis_state [of env1 s0] g assms(1)
  have s': "fetches s' = fetches s0" "ext_context s' = Some g0" by simp_all
  from loadEmojis_try_miss [OF g c] assms(3,4) s' show ?thesis
    by (simp add: loadEmojis_def cacheEmojis_def)
qed

text \<open>
  A load that populates the cache from a non-empty directory, then a second load at
  most 24 hours after the first wrote its timestamp: the same entries, no second
  request.
\<close>

lemma two_loads_within_window:
  assumes "ext_context s0 = Some g0"
    and "fst (getCachedEmojis env1 s0) = None \<or> fst (getCachedEmojis env1 s0) = Some []"
    and "fetched env1 = Directory kvs" "written env1 = WriteOk"
    and "kvs \<noteq> []" "clock_write env1 \<noteq> 0"
    and "read_ok env2" "clock_read env2 - clock_write env1 \<le> 86400000"
  shows "getAvailableEmojis (snd (loadEmojis env2 (snd (loadEmojis env1 s0)))) =
           getAvailableEmojis (snd (loadEmojis env1 s0)) \<and>
         fetches (snd (loadEmojis env2 (snd (loadEmojis env1 s0)))) =
           fetches (snd (loadEmojis env1 s0))"
proof -
  let ?s1 = "snd (loadEmojis env1 s0)"
  let ?g = "g0\<lparr>stored_emojis := Some (toCache kvs), stored_timestamp := Some (clock_write env1)\<rparr>"
  from population_record [OF assms(1-4)]
  have r: "ext_context ?s1 = Some ?g" and e: "emojiCache ?s1 = toCache kvs"
    by simp_all
  have g: "stored_emojis ?g = Some (toCache kvs)" "stored_timestamp ?g = Some (clock_write env1)"
    by simp_all
  have n: "toCache kvs \<noteq> []"
    using assms(5) by (simp add: toCache_def)
  from load_serves_valid_record [OF r g(1) n g(2) assms(6,7,8)] e show ?thesis
    by (simp add: getAvailableEmojis_def)
qed

lemma getCachedEmojis_any_record:
  assumes "ext_context s = Some g" "stored_emojis g = Some es" "stored_timestamp g = Some ts"
  shows "fst (getCachedEmojis env s) =
     (if read_ok env \<and> ts \<noteq> 0 \<and> clock_read env - ts \<le> 86400000 then Some es else None)"
  using assms by (simp add: getCachedEmojis_def CACHE_EXPIRY_HOURS_def)

lemma load_fetches_on_miss:
  assumes "fst (getCachedEmojis env s) = None \<or> fst (getCachedEmojis env s) = Some []"
  shows "fetches (snd (loadEmojis env s)) = Suc (fetches s)"
proof -
  obtain c s' where g: "getCachedEmojis env s = (c, s')"
    by (cases "getCachedEmojis env s")
  with assms have c: "c = None \<or> c = Some []" by simp
  from getCachedEmojis_state [of env s] g
  have s': "fetches s' = fetches s" by simp
  from loadEmojis_try_miss [OF g c] s' show ?thesis
    by (cases "fetched env") (simp_all add: loadEmojis_def cacheEmojis_state)
qed

text \<open>
  Claim C8, as the code has it. For every cache record, a list of entries \<open>es\<close> with
  a timestamp \<open>ts\<close> in the global state of the extension context, and every load, with
  its clock reading \<open>now\<close>: the load never raises, and it serves the cached entries
  without a request to the remote directory exactly when the global state can be read,
  the list of entries is not empty, the timestamp is not zero and \<open>now - ts\<close> is at
  most 24 hours (the boundary included). In every other case it makes one request to
  the directory: a record more than 24 hours old, a record with no entries whatever
  its age, a zero timestamp, a global state that cannot be read. A second load that
  also meets the conditions returns the same entries, again without a request.
\<close>

theorem emoji_cache_window:
  assumes "ext_context s = Some g" "stored_emojis g = Some es" "stored_timestamp g = Some ts"
  shows "fst (loadEmojis env s) = Inr () \<and>
         fetches (snd (loadEmojis env s)) =
           (if read_ok env \<and> es \<noteq> [] \<and> ts \<noteq> 0 \<and> clock_read env - ts \<le> 24 * 60 * 60 * 1000
            then fetches s else Suc (fetches s)) \<and>
         (read_ok env \<and> es \<noteq> [] \<and> ts \<noteq> 0 \<and> clock_read env - ts \<le> 24 * 60 * 60 * 1000 \<longrightarrow>
            getAvailableEmojis (snd (loadEmojis env s)) = es) \<and>
         (read_ok env \<and> es \<noteq> [] \<and> ts \<noteq> 0 \<and> clock_read env - ts \<le> 24 * 60 * 60 * 1000 \<and>
          read_ok env' \<and> clock_read env' - ts \<le> 24 * 60 * 60 * 1000 \<longrightarrow>
            getAvailableEmojis (snd (loadEmojis env' (snd (loadEmojis env s)))) =
              getAvailableEmojis (snd (loadEmojis env s)) \<and>
            fetches (snd (loadEmojis env' (snd (loadEmojis env s)))) = fetches s)"
proof (cases "read_ok env \<and> es \<noteq> [] \<and> ts \<noteq> 0 \<and> clock_read env - ts \<le> 86400000")
  case True
  then have v: "es \<noteq> []" "ts \<noteq> 0" "read_ok env" "clock_read env - ts \<le> 86400000"
    by simp_all
  let ?s1 = "s\<lparr>emojiCache := es, emojis := fold (\<lambda>e m. m(name e \<mapsto> url e)) es Map.empty\<rparr>"
  from load_serves_valid_record [OF assms(1,2) v(1) assms(3) v(2,3,4)]
  have first: "loadEmojis env s = (Inr (), ?s1)" .
  have again: "loadEmojis env' ?s1 = (Inr (), ?s1)"
    if "read_ok env'" "clock_read env' - ts \<le> 86400000"
  proof -
    have "ext_context ?s1 = Some g" using assms(1) by simp
    from load_serves_valid_record [OF this assms(2) v(1) assms(3) v(2) that] show ?thesis
      by simp
  qed
  from True first again show ?thesis
    by (simp add: getAvailableEmojis_def)
next
  case False
  with getCachedEmojis_any_record [OF assms, of env]
  have "fst (getCachedEmojis env s) = None \<or> fst (getCachedEmojis env s) = Some []"
    by (auto split: if_splits)
  from load_fetches_on_miss [OF this] False show ?thesis
    by (auto simp add: loadEmojis_returns)
qed

theorem emoji_cache_window_witness:
  "getAvailableEmojis (snd (loadEmojis (load_at 1000 (Directory [(''tada'', ''u'')])) with_store)) =
     [\<lparr>name = ''tada'', url = ''u''\<rparr>] \<and>
   fetches (snd (loadEmojis (load_at 1000 (Directory [(''tada'', ''u'')])) with_store)) = 1 \<and>
   getAvailableEmojis (snd (loadEmojis (load_at 86401000 NetworkError)
       (snd (loadEmojis (load_at 1000 (Directory [(''tada'', ''u'')])) with_store)))) =
     [\<lparr>name = ''tada'', url = ''u''\<rparr>] \<and>
   fetches (snd (loadEmojis (load_at 86401000 NetworkError)
       (snd (loadEmojis (load_at 1000 (Directory [(''tada'', ''u'')])) with_store)))) = 1 \<and>
   fetches (snd (loadEmojis (load_at 86401001 NetworkError)
       (snd (loadEmojis (load_at 1000 (Directory [(''tada'', ''u'')])) with_store)))) = 2"
proof -
  let ?s1 = "snd (loadEmojis (load_at 1000 (Directory [(''tada'', ''u'')])) with_store)"
  let ?g = "\<lparr>stored_emojis = Some [\<lparr>name = ''tada'', url = ''u''\<rparr>], stored_timestamp = Some 1000\<rparr>"
  have s1: "?s1 = with_store\<lparr>fetches := 1, emojis := map_of [(''tada'', ''u'')],
      emojiCache := [\<lparr>name = ''tada'', url = ''u''\<rparr>], ext_context := Some ?g\<rparr>"
    by (simp add: loadEmojis_def loadEmojis_try_def getCachedEmojis_def cacheEmojis_def
        with_store_def load_at_def toCache_def scenario_def)
  have h: "ext_context ?s1 = Some ?g" "stored_emojis ?g = Some [\<lparr>name = ''tada'', url = ''u''\<rparr>]"
    "stored_timestamp ?g = Some 1000"
    by (simp_all add: s1)
  have r: "read_ok (load_at t f)" "clock_read (load_at t f) = t" for t f
    by (simp_all add: load_at_def)
  have f1: "fetches ?s1 = 1"
    by (simp add: s1)
  from emoji_cache_window [OF h, where env = "load_at 86401000 NetworkError"
      and env' = "load_at 86401000 NetworkError"]
  have served: "fetches (snd (loadEmojis (load_at 86401000 NetworkError) ?s1)) = 1"
    "getAvailableEmojis (snd (loadEmojis (load_at 86401000 NetworkError) ?s1)) =
       [\<lparr>name = ''tada'', url = ''u''\<rparr>]"
    by (simp_all add: r f1)
  from emoji_cache_window [OF h, where env = "load_at 86401001 NetworkError"
      and env' = "load_at 86401001 NetworkError"]
  have expired: "fetches (snd (loadEmojis (load_at 86401001 NetworkError) ?s1)) = 2"
    by (simp add: r f1)
  have "getAvailableEmojis ?s1 = [\<lparr>name = ''tada'', url = ''u''\<rparr>]"
    by (simp add: s1 getAvailableEmojis_def)
  with served expired f1 show ?thesis
    by simp
qed

text \<open>
  The claim, which lets the age of the record alone decide, fails at four records:
  a record with no entries is refetched one second after it was written; a record
  exactly 24 hours old (no less) is still served from the cache; a record whose
  timestamp is zero is refetched one second later; and a record one second old is
  refetched when reading the global state fails.
\<close>

theorem cache_window_counterexample:
  "fetches (snd (loadEmojis (load_at 2000 HttpError)
      (scenario\<lparr>ext_context := Some \<lparr>stored_emojis = Some [], stored_timestamp = Some 1000\<rparr>\<rparr>))) = 1 \<and>
   fetches (snd (loadEmojis (load_at 86401000 HttpError)
      (scenario\<lparr>ext_context :=
         Some \<lparr>stored_emojis = Some [\<lparr>name = ''tada'', url = ''u''\<rparr>],
               stored_timestamp = Some 1000\<rparr>\<rparr>))) = 0 \<and>
   fetches (snd (loadEmojis (load_at 1000 HttpError)
      (scenario\<lparr>ext_context :=
         Some \<lparr>stored_emojis = Some [\<lparr>name = ''tada'', url = ''u''\<rparr>],
               stored_timestamp = Some 0\<rparr>\<rparr>))) = 1 \<and>
   fetches (snd (loadEmojis ((load_at 2000 HttpError)\<lparr>read_ok := False\<rparr>)
      (scenario\<lparr>ext_context :=
         Some \<lparr>stored_emojis = Some [\<lparr>name = ''tada'', url = ''u''\<rparr>],
               stored_timestamp = Some 1000\<rparr>\<rparr>))) = 1"
  by (simp add: loadEmojis_def loadEmojis_try_def getCachedEmojis_def CACHE_EXPIRY_HOURS_def
      load_at_def scenario_def)

subsection \<open>The fallback catalog\<close>

lemma fallback_on_throw:
  assumes "fst (getCachedEmojis env s) = None \<or> fst (getCachedEmojis env s) = Some []"
    and "fetched env = NetworkError \<or> fetched env = BodyUnparseable"
  shows "getAvailableEmojis (snd (loadEmojis env s)) = toCache fallbackEmojis \<and>
         map name (getAvailableEmojis (snd (loadEmojis env s))) =
           [''computer'', ''rocket'', ''zap'', ''coffee'', ''fire'', ''house'']"
proof -
  obtain c s' where g: "getCachedEmojis env s = (c, s')"
    by (cases "getCachedEmojis env s")
  with assms(1) have c: "c = None \<or> c = Some []" by simp
  have n: "map name (toCache fallbackEmojis) =
      [''computer'', ''rocket'', ''zap'', ''coffee'', ''fire'', ''house'']"
    by (simp add: toCache_def fallbackEmojis_def)
  from loadEmojis_try_miss [OF g c] assms(2)
  have "getAvailableEmojis (snd (loadEmojis env s)) = toCache fallbackEmojis"
    by (auto simp add: loadEmojis_def getAvailableEmojis_def)
  with n show ?thesis by simp
qed

text \<open>
  Claim C9 at a response that is not ok. No load raises (\<open>loadEmojis_returns\<close>), and a
  rejected request or an unparseable body installs the six built-in entries
  (\<open>fallback_on_throw\<close>). But when the directory answers with an error status, with no
  usable cache, the try block ends without throwing: the catalog is left as it was,
  empty after construction, where the claim has the built-in entries.
\<close>

theorem http_error_leaves_catalog_empty:
  "loadEmojis (load_at 1000 HttpError) with_store = (Inr (), with_store\<lparr>fetches := 1\<rparr>) \<and>
   getAvailableEmojis (snd (loadEmojis (load_at 1000 HttpError) with_store)) = [] \<and>
   getAvailableEmojis (snd (loadEmojis (load_at 1000 NetworkError) with_store)) =
     toCache fallbackEmojis"
  by (simp add: loadEmojis_def loadEmojis_try_def getCachedEmojis_def
      load_at_def with_store_def scenario_def getAvailableEmojis_def)

end
